theory Spec2Isabelle
  imports Main "HOL-Library.Sublist"
begin

section \<open>Values, parameter sets and errors\<close>

text \<open>
  \<^verbatim>\<open>pack.py\<close> looks at a keyword argument in three ways only: is it a \<^verbatim>\<open>str\<close>, is it
  some other iterable (then it is iterated), and what does \<^verbatim>\<open>str()\<close> return for it.
  A value is modelled by exactly these observations:
  \<^item> \<open>PStr s\<close>: a Python \<^verbatim>\<open>str\<close>;
  \<^item> \<open>PInt i\<close>: a Python \<^verbatim>\<open>int\<close>, which \<^verbatim>\<open>str()\<close> renders in decimal;
  \<^item> \<open>PIter xs r\<close>: an iterable that is not a \<^verbatim>\<open>str\<close> (list, tuple, ...), with its
    elements \<open>xs\<close> in iteration order; \<open>r\<close> is what the interpreter's \<^verbatim>\<open>str()\<close> returns
    for the container itself (its \<^verbatim>\<open>repr\<close>, computed outside this module);
  \<^item> \<open>PObj r\<close>: any other object that is neither a \<^verbatim>\<open>str\<close> nor iterable, with \<open>r\<close> its
    \<^verbatim>\<open>str()\<close> rendering (\<^verbatim>\<open>None\<close> is \<open>PObj ''None''\<close>).

  Text is a \<open>string\<close> of ASCII characters; \<open>upper\<close> below is \<^verbatim>\<open>str.upper\<close> on such text.
\<close>

datatype pyval =
    PStr string
  | PInt int
  | PIter "pyval list" string
  | PObj string

type_synonym kwargs = "string \<rightharpoonup> pyval"

text \<open>
  \<open>KeyError k\<close> is what \<^verbatim>\<open>kwargs[field]\<close> raises for an absent key (the spec's
  \<open>MissingRequiredField\<close>); \<open>ValueError m\<close> is raised by \<^verbatim>\<open>pack_command\<close> itself with
  message \<open>m\<close> (the spec's \<open>InvalidCommand\<close> and \<open>UnknownCommand\<close>).
\<close>

datatype error = KeyError string | ValueError string

text \<open>
  The \<^verbatim>\<open>command\<close> argument: a \<^verbatim>\<open>str\<close>, or some other object without an \<^verbatim>\<open>upper\<close>
  method, of which only its truth value matters.
\<close>

datatype pycmd = CmdStr string | CmdObj bool

section \<open>The interpreter's \<^verbatim>\<open>str()\<close>, \<^verbatim>\<open>str.join\<close> and \<^verbatim>\<open>str.upper\<close>\<close>

definition digit_char :: "nat \<Rightarrow> char" where
  "digit_char d = ''0123456789'' ! d"

fun str_nat :: "nat \<Rightarrow> string" where
  "str_nat n = (if n < 10 then [digit_char n] else str_nat (n div 10) @ [digit_char (n mod 10)])"

declare str_nat.simps [simp del]

definition str_int :: "int \<Rightarrow> string" where
  "str_int i = (if i < 0 then CHR ''-'' # str_nat (nat (- i)) else str_nat (nat i))"

fun py_str :: "pyval \<Rightarrow> string" where
  "py_str (PStr s) = s"
| "py_str (PInt i) = str_int i"
| "py_str (PIter xs r) = r"
| "py_str (PObj r) = r"

fun join :: "string \<Rightarrow> string list \<Rightarrow> string" where
  "join sep [] = []"
| "join sep [x] = x"
| "join sep (x # y # ys) = x @ sep @ join sep (y # ys)"

definition upper_char :: "char \<Rightarrow> char" where
  "upper_char c =
     (case map_of (zip ''abcdefghijklmnopqrstuvwxyz'' ''ABCDEFGHIJKLMNOPQRSTUVWXYZ'') c of
        Some u \<Rightarrow> u
      | None \<Rightarrow> c)"

definition upper :: "string \<Rightarrow> string" where
  "upper s = map upper_char s"

section \<open>Field Accessor and List Packer\<close>

text \<open>
  The optional argument \<^verbatim>\<open>default=missing\<close> is a \<open>pyval option\<close>: \<open>None\<close> is the
  sentinel \<^verbatim>\<open>missing\<close> (the argument is written \<open>dflt\<close>, as \<open>default\<close> is a HOL
  constant). \<open>get_value\<close> is the lookup both functions start with:
  \<^verbatim>\<open>kwargs.get(field, default)\<close> when a default is given, \<^verbatim>\<open>kwargs[field]\<close> otherwise.
\<close>

definition get_value :: "string \<Rightarrow> kwargs \<Rightarrow> pyval option \<Rightarrow> error + pyval" where
  "get_value field kwargs dflt =
     (case dflt of
        Some d \<Rightarrow> Inr (case kwargs field of Some v \<Rightarrow> v | None \<Rightarrow> d)
      | None \<Rightarrow> (case kwargs field of Some v \<Rightarrow> Inr v | None \<Rightarrow> Inl (KeyError field)))"

definition f :: "string \<Rightarrow> kwargs \<Rightarrow> pyval option \<Rightarrow> error + string" where
  "f field kwargs dflt =
     (case get_value field kwargs dflt of
        Inl e \<Rightarrow> Inl e
      | Inr v \<Rightarrow> Inr (py_str v))"

definition pack :: "string \<Rightarrow> kwargs \<Rightarrow> pyval option \<Rightarrow> string \<Rightarrow> error + string" where
  "pack field kwargs dflt sep =
     (case get_value field kwargs dflt of
        Inl e \<Rightarrow> Inl e
      | Inr v \<Rightarrow>
          Inr (case v of
                 PStr s \<Rightarrow> s
               | PIter xs r \<Rightarrow> join sep (map py_str xs)
               | _ \<Rightarrow> py_str v))"

text \<open>Sequencing of calls that may raise: the first exception ends the evaluation.\<close>

definition then_do :: "error + 'a \<Rightarrow> ('a \<Rightarrow> error + 'b) \<Rightarrow> error + 'b" where
  "then_do m k = (case m of Inl e \<Rightarrow> Inl e | Inr a \<Rightarrow> k a)"

section \<open>The command grammar\<close>

text \<open>
  \<open>dispatch\<close> is the \<^verbatim>\<open>if\<close>/\<^verbatim>\<open>elif\<close> chain of \<^verbatim>\<open>pack_command\<close>, in the source's
  order, on the upper-cased command. \<^verbatim>\<open>"A {} {}".format(x, y)\<close> evaluates \<open>x\<close> then
  \<open>y\<close> and concatenates; \<^verbatim>\<open>"message" in kwargs\<close> is \<open>kwargs ''message'' \<noteq> None\<close>.
  A call of \<^verbatim>\<open>pack\<close> without \<^verbatim>\<open>sep\<close> uses the default separator \<^verbatim>\<open>","\<close>.
\<close>

definition dispatch :: "string \<Rightarrow> kwargs \<Rightarrow> error + string" where
  "dispatch command kwargs =
    (if command = ''PASS'' then
       then_do (f ''password'' kwargs None) (\<lambda>a. Inr (''PASS '' @ a))
     else if command = ''NICK'' then
       then_do (f ''nick'' kwargs None) (\<lambda>a. Inr (''NICK '' @ a))
     else if command = ''USER'' then
       then_do (f ''user'' kwargs None) (\<lambda>a.
       then_do (f ''mode'' kwargs (Some (PInt 0))) (\<lambda>b.
       then_do (f ''realname'' kwargs None) (\<lambda>c.
         Inr (''USER '' @ a @ '' '' @ b @ '' * :'' @ c))))
     else if command = ''OPER'' then
       then_do (f ''user'' kwargs None) (\<lambda>a.
       then_do (f ''password'' kwargs None) (\<lambda>b.
         Inr (''OPER '' @ a @ '' '' @ b)))
     else if command = ''USERMODE'' then
       then_do (f ''nick'' kwargs None) (\<lambda>a.
       then_do (f ''modes'' kwargs (Some (PStr ''''))) (\<lambda>b.
         Inr (''MODE '' @ a @ '' '' @ b)))
     else if command = ''SERVICE'' then
       then_do (f ''nick'' kwargs None) (\<lambda>a.
       then_do (f ''distribution'' kwargs None) (\<lambda>b.
       then_do (f ''type'' kwargs None) (\<lambda>c.
       then_do (f ''info'' kwargs None) (\<lambda>d.
         Inr (''SERVICE '' @ a @ '' * '' @ b @ '' '' @ c @ '' 0 :'' @ d)))))
     else if command = ''QUIT'' then
       (if kwargs ''message'' \<noteq> None then
          then_do (f ''message'' kwargs None) (\<lambda>a. Inr (''QUIT :'' @ a))
        else Inr ''QUIT'')
     else if command = ''SQUIT'' then
       then_do (f ''server'' kwargs None) (\<lambda>a.
         let base = ''SQUIT '' @ a in
         if kwargs ''message'' \<noteq> None then
           then_do (f ''message'' kwargs None) (\<lambda>b. Inr (base @ '' :'' @ b))
         else Inr base)
     else if command = ''JOIN'' then
       then_do (pack ''channel'' kwargs None '','') (\<lambda>a.
       then_do (pack ''key'' kwargs (Some (PStr '''')) '','') (\<lambda>b.
         Inr (''JOIN '' @ a @ '' '' @ b)))
     else if command = ''PART'' then
       then_do (pack ''channel'' kwargs None '','') (\<lambda>a.
         let base = ''PART '' @ a in
         if kwargs ''message'' \<noteq> None then
           then_do (f ''message'' kwargs None) (\<lambda>b. Inr (base @ '' :'' @ b))
         else Inr base)
     else if command = ''CHANNELMODE'' then
       then_do (f ''channel'' kwargs None) (\<lambda>a.
       then_do (f ''modes'' kwargs None) (\<lambda>b.
       then_do (f ''params'' kwargs (Some (PStr ''''))) (\<lambda>c.
         Inr (''MODE '' @ a @ '' '' @ b @ '' '' @ c))))
     else if command = ''TOPIC'' then
       then_do (f ''channel'' kwargs None) (\<lambda>a.
         let base = ''TOPIC '' @ a in
         if kwargs ''message'' \<noteq> None then
           then_do (f ''message'' kwargs None) (\<lambda>b. Inr (base @ '' :'' @ b))
         else Inr base)
     else if command = ''NAMES'' then
       then_do (pack ''channel'' kwargs (Some (PStr '''')) '','') (\<lambda>a. Inr (''NAMES '' @ a))
     else if command = ''LIST'' then
       then_do (pack ''channel'' kwargs (Some (PStr '''')) '','') (\<lambda>a. Inr (''LIST '' @ a))
     else if command = ''INVITE'' then
       then_do (f ''nick'' kwargs None) (\<lambda>a.
       then_do (f ''channel'' kwargs None) (\<lambda>b.
         Inr (''INVITE '' @ a @ '' '' @ b)))
     else if command = ''KICK'' then
       then_do (pack ''channel'' kwargs None '','') (\<lambda>a.
       then_do (pack ''nick'' kwargs None '','') (\<lambda>b.
         let base = ''KICK '' @ a @ '' '' @ b in
         if kwargs ''message'' \<noteq> None then
           then_do (pack ''message'' kwargs None '','') (\<lambda>c. Inr (base @ '' :'' @ c))
         else Inr base))
     else if command = ''PRIVMSG'' then
       then_do (f ''target'' kwargs None) (\<lambda>a.
       then_do (f ''message'' kwargs None) (\<lambda>b.
         Inr (''PRIVMSG '' @ a @ '' :'' @ b)))
     else if command = ''NOTICE'' then
       then_do (f ''target'' kwargs None) (\<lambda>a.
       then_do (f ''message'' kwargs None) (\<lambda>b.
         Inr (''NOTICE '' @ a @ '' :'' @ b)))
     else if command = ''MOTD'' then Inr ''MOTD''
     else if command = ''LUSERS'' then
       then_do (f ''mask'' kwargs (Some (PStr ''''))) (\<lambda>a. Inr (''LUSERS '' @ a))
     else if command = ''VERSION'' then Inr ''VERSION''
     else if command = ''STATS'' then
       then_do (f ''query'' kwargs (Some (PStr ''''))) (\<lambda>a. Inr (''STATS '' @ a))
     else if command = ''LINKS'' then
       (if kwargs ''remote'' \<noteq> None then
          then_do (f ''remote'' kwargs None) (\<lambda>a.
          then_do (f ''mask'' kwargs None) (\<lambda>b.
            Inr (''LINKS '' @ a @ '' '' @ b)))
        else if kwargs ''mask'' \<noteq> None then
          then_do (f ''mask'' kwargs None) (\<lambda>a. Inr (''LINKS '' @ a))
        else Inr ''LINKS'')
     else if command = ''TIME'' then Inr ''TIME''
     else if command = ''CONNECT'' then
       then_do (f ''target'' kwargs None) (\<lambda>a.
       then_do (f ''port'' kwargs None) (\<lambda>b.
       then_do (f ''remote'' kwargs (Some (PStr ''''))) (\<lambda>c.
         Inr (''CONNECT '' @ a @ '' '' @ b @ '' '' @ c))))
     else if command = ''TRACE'' then Inr ''TRACE''
     else if command = ''ADMIN'' then Inr ''ADMIN''
     else if command = ''INFO'' then Inr ''INFO''
     else if command = ''SERVLIST'' then
       then_do (f ''mask'' kwargs (Some (PStr ''''))) (\<lambda>a.
       then_do (f ''type'' kwargs (Some (PStr ''''))) (\<lambda>b.
         Inr (''SERVLIST '' @ a @ '' '' @ b)))
     else if command = ''SQUERY'' then
       then_do (f ''target'' kwargs None) (\<lambda>a.
       then_do (f ''message'' kwargs None) (\<lambda>b.
         Inr (''SQUERY '' @ a @ '' :'' @ b)))
     else if command = ''WHO'' then
       then_do (f ''mask'' kwargs (Some (PStr ''''))) (\<lambda>a. Inr (''WHO '' @ a))
     else if command = ''WHOIS'' then
       then_do (f ''mask'' kwargs None) (\<lambda>a. Inr (''WHOIS '' @ a))
     else if command = ''WHOWAS'' then
       then_do (pack ''nick'' kwargs None '','') (\<lambda>a.
       then_do (f ''count'' kwargs (Some (PStr ''''))) (\<lambda>b.
         Inr (''WHOWAS '' @ a @ '' '' @ b)))
     else if command = ''KILL'' then
       then_do (f ''nick'' kwargs None) (\<lambda>a.
       then_do (f ''message'' kwargs None) (\<lambda>b.
         Inr (''KILL '' @ a @ '' :'' @ b)))
     else if command = ''PING'' then
       then_do (f ''server1'' kwargs (Some (PStr ''''))) (\<lambda>a.
       then_do (f ''server2'' kwargs (Some (PStr ''''))) (\<lambda>b.
         let message = ''PING '' @ a @ '' '' @ b in
         if kwargs ''message'' \<noteq> None then
           then_do (f ''message'' kwargs None) (\<lambda>c. Inr (message @ '' :'' @ c))
         else Inr message))
     else if command = ''PONG'' then
       then_do (f ''server1'' kwargs (Some (PStr ''''))) (\<lambda>a.
       then_do (f ''server2'' kwargs (Some (PStr ''''))) (\<lambda>b.
         let message = ''PONG '' @ a @ '' '' @ b in
         if kwargs ''message'' \<noteq> None then
           then_do (f ''message'' kwargs None) (\<lambda>c. Inr (message @ '' :'' @ c))
         else Inr message))
     else if command = ''AWAY'' then
       (if kwargs ''message'' \<noteq> None then
          then_do (f ''message'' kwargs None) (\<lambda>a. Inr (''AWAY :'' @ a))
        else Inr ''AWAY'')
     else if command = ''REHASH'' then Inr ''REHASH''
     else if command = ''DIE'' then Inr ''DIE''
     else if command = ''RESTART'' then Inr ''RESTART''
     else if command = ''SUMMON'' then
       then_do (f ''nick'' kwargs None) (\<lambda>a.
       then_do (f ''channel'' kwargs (Some (PStr ''''))) (\<lambda>b.
         Inr (''SUMMON '' @ a @ '' '' @ b)))
     else if command = ''USERS'' then Inr ''USERS''
     else if command = ''WALLOPS'' then
       then_do (f ''message'' kwargs None) (\<lambda>a. Inr (''WALLOPS :'' @ a))
     else if command = ''USERHOST'' then
       then_do (pack ''nick'' kwargs None '' '') (\<lambda>a. Inr (''USERHOST '' @ a))
     else if command = ''ISON'' then
       then_do (pack ''nick'' kwargs None '' '') (\<lambda>a. Inr (''ISON '' @ a))
     else
       Inl (ValueError (''Unknown command '' @ [CHR 0x27] @ command @ [CHR 0x27])))"

text \<open>
  \<^verbatim>\<open>pack_command\<close>: a falsy command (the empty string, or a falsy object) is refused
  first; \<^verbatim>\<open>command.upper()\<close> raises \<^verbatim>\<open>AttributeError\<close> on an object that is not a
  \<^verbatim>\<open>str\<close>, which the source turns into a \<^verbatim>\<open>ValueError\<close>.
\<close>

definition pack_command :: "pycmd \<Rightarrow> kwargs \<Rightarrow> error + string" where
  "pack_command command kwargs =
     (case command of
        CmdObj truthy \<Rightarrow>
          if \<not> truthy then Inl (ValueError ''Must provide a command'')
          else Inl (ValueError ''Command must be a str'')
      | CmdStr name \<Rightarrow>
          if name = [] then Inl (ValueError ''Must provide a command'')
          else dispatch (upper name) kwargs)"

section \<open>Vocabulary of the properties\<close>

text \<open>
  Two command names are casings of one another when they have the same length and
  agree letter by letter up to ASCII case.
\<close>

definition same_letter :: "char \<Rightarrow> char \<Rightarrow> bool" where
  "same_letter a b = (a = b \<or> upper_char a = b \<or> a = upper_char b)"

definition casings :: "string \<Rightarrow> string \<Rightarrow> bool" where
  "casings c1 c2 = list_all2 same_letter c1 c2"

text \<open>A scalar is a value that \<^verbatim>\<open>pack\<close> does not iterate: a string or a non-iterable.\<close>

definition is_scalar :: "pyval \<Rightarrow> bool" where
  "is_scalar v = (case v of PIter xs r \<Rightarrow> False | _ \<Rightarrow> True)"

text \<open>
  The list-joinable fields: the (command, field) pairs that \<open>dispatch\<close> reads through
  \<^verbatim>\<open>pack\<close>.
\<close>

definition list_fields :: "(string \<times> string) list" where
  "list_fields =
     [(''JOIN'', ''channel''), (''JOIN'', ''key''), (''PART'', ''channel''),
      (''NAMES'', ''channel''), (''LIST'', ''channel''),
      (''KICK'', ''channel''), (''KICK'', ''nick''), (''KICK'', ''message''),
      (''WHOWAS'', ''nick''), (''USERHOST'', ''nick''), (''ISON'', ''nick'')]"

text \<open>The commands whose rule reads no field at all.\<close>

definition no_argument_commands :: "string list" where
  "no_argument_commands =
     [''MOTD'', ''VERSION'', ''TIME'', ''TRACE'', ''ADMIN'', ''INFO'',
      ''REHASH'', ''DIE'', ''RESTART'', ''USERS'']"

text \<open>
  The required fields of each command: those its rule reads with no default and outside
  any \<^verbatim>\<open>"..." in kwargs\<close> test, in the order in which the rule reads them.
\<close>

definition required_fields :: "string \<Rightarrow> string list" where
  "required_fields command =
     (case map_of
        [(''PASS'', [''password'']),
         (''NICK'', [''nick'']),
         (''USER'', [''user'', ''realname'']),
         (''OPER'', [''user'', ''password'']),
         (''USERMODE'', [''nick'']),
         (''SERVICE'', [''nick'', ''distribution'', ''type'', ''info'']),
         (''SQUIT'', [''server'']),
         (''JOIN'', [''channel'']),
         (''PART'', [''channel'']),
         (''CHANNELMODE'', [''channel'', ''modes'']),
         (''TOPIC'', [''channel'']),
         (''INVITE'', [''nick'', ''channel'']),
         (''KICK'', [''channel'', ''nick'']),
         (''PRIVMSG'', [''target'', ''message'']),
         (''NOTICE'', [''target'', ''message'']),
         (''CONNECT'', [''target'', ''port'']),
         (''SQUERY'', [''target'', ''message'']),
         (''WHOIS'', [''mask'']),
         (''WHOWAS'', [''nick'']),
         (''KILL'', [''nick'', ''message'']),
         (''SUMMON'', [''nick'']),
         (''WALLOPS'', [''message'']),
         (''USERHOST'', [''nick'']),
         (''ISON'', [''nick''])] command of
        Some fields \<Rightarrow> fields
      | None \<Rightarrow> [])"

section \<open>Basic facts\<close>

lemma then_do_Inr_iff: "then_do m k = Inr s \<longleftrightarrow> (\<exists>a. m = Inr a \<and> k a = Inr s)"
  by (cases m) (simp_all add: then_do_def)

lemma pack_command_dispatch:
  "upper c = C \<Longrightarrow> C \<noteq> [] \<Longrightarrow> pack_command (CmdStr c) kwargs = dispatch C kwargs"
  by (auto simp add: pack_command_def upper_def)

lemma pack_command_upper:
  "upper c \<noteq> [] \<Longrightarrow> pack_command (CmdStr c) kwargs = dispatch (upper c) kwargs"
  by (auto simp add: pack_command_def upper_def)

lemma pack_command_Inr_dispatch:
  "pack_command (CmdStr c) kwargs = Inr s \<Longrightarrow> dispatch (upper c) kwargs = Inr s"
  by (simp add: pack_command_def split: if_splits)

lemma upper_char_idem: "upper_char (upper_char a) = upper_char a"
  by (simp add: upper_char_def split: option.splits if_splits)

lemma same_letter_upper: "same_letter a b \<Longrightarrow> upper_char a = upper_char b"
  by (auto simp add: same_letter_def upper_char_idem)

lemma casings_upper: "casings c1 c2 \<Longrightarrow> upper c1 = upper c2"
  unfolding casings_def upper_def
  by (induction c1 c2 rule: list_all2_induct) (simp_all add: same_letter_upper)

lemma casings_Nil_iff: "casings c1 c2 \<Longrightarrow> (c1 = [] \<longleftrightarrow> c2 = [])"
  unfolding casings_def by (auto simp add: list_all2_Nil list_all2_Nil2)

lemma upper_literals:
  "upper ''SERVICE'' = ''SERVICE''" "upper ''USERHOST'' = ''USERHOST''"
  "upper ''ISON'' = ''ISON''" "upper ''JOIN'' = ''JOIN''" "upper ''QUIT'' = ''QUIT''"
  "upper ''LINKS'' = ''LINKS''" "upper ''PASS'' = ''PASS''"
  "upper ''USERMODE'' = ''USERMODE''" "upper ''OPER'' = ''OPER''"
  by (simp_all add: upper_def upper_char_def)

section \<open>SERVICE\<close>

text \<open>
  C1 (amended). For every parameter set containing nick, distribution, type and info,
  \<^verbatim>\<open>pack_command("SERVICE", ...)\<close> returns
  \<^verbatim>\<open>SERVICE <nick> * <distribution> <type> 0 :<info>\<close>: the stringified distribution
  comes before the stringified type, as in the rule's own grammar comment.
\<close>

theorem service_field_order:
  assumes "kwargs ''nick'' = Some n" and "kwargs ''distribution'' = Some d"
    and "kwargs ''type'' = Some t" and "kwargs ''info'' = Some i"
  shows "pack_command (CmdStr ''SERVICE'') kwargs =
           Inr (''SERVICE '' @ py_str n @ '' * '' @ py_str d @ '' '' @ py_str t
                  @ '' 0 :'' @ py_str i)"
  using assms
  by (simp add: pack_command_dispatch [OF upper_literals(1)] dispatch_def f_def
      get_value_def then_do_def)

theorem service_field_order_witness:
  "pack_command (CmdStr ''SERVICE'')
     [''nick'' \<mapsto> PStr ''dict'', ''distribution'' \<mapsto> PStr ''*.fr'',
      ''type'' \<mapsto> PInt 3, ''info'' \<mapsto> PStr ''French'']
   = Inr ''SERVICE dict * *.fr 3 0 :French''"
  using service_field_order
    [of "[''nick'' \<mapsto> PStr ''dict'', ''distribution'' \<mapsto> PStr ''*.fr'',
          ''type'' \<mapsto> PInt 3, ''info'' \<mapsto> PStr ''French'']"
        "PStr ''dict''" "PStr ''*.fr''" "PInt 3" "PStr ''French''"]
  by (simp add: str_int_def str_nat.simps digit_char_def)

text \<open>
  The order stated in C1 (type before distribution) is not what the rule emits: with
  type \<^verbatim>\<open>3\<close> and distribution \<^verbatim>\<open>*.fr\<close> the line has \<^verbatim>\<open>*.fr 3\<close>, not \<^verbatim>\<open>3 *.fr\<close>.
\<close>

theorem service_type_first_counterexample:
  "pack_command (CmdStr ''SERVICE'')
     [''nick'' \<mapsto> PStr ''dict'', ''distribution'' \<mapsto> PStr ''*.fr'',
      ''type'' \<mapsto> PStr ''3'', ''info'' \<mapsto> PStr ''French'']
   = Inr ''SERVICE dict * *.fr 3 0 :French''
   \<and> pack_command (CmdStr ''SERVICE'')
     [''nick'' \<mapsto> PStr ''dict'', ''distribution'' \<mapsto> PStr ''*.fr'',
      ''type'' \<mapsto> PStr ''3'', ''info'' \<mapsto> PStr ''French'']
   \<noteq> Inr ''SERVICE dict * 3 *.fr 0 :French''"
  by (simp add: pack_command_dispatch [OF upper_literals(1)] dispatch_def f_def
      get_value_def then_do_def)

section \<open>USERHOST and ISON\<close>

text \<open>
  C2 (amended). For USERHOST and ISON the nick field is required: the rule calls
  \<^verbatim>\<open>pack("nick", kwargs, sep=" ")\<close> with no default, so when nick is absent from the
  parameter set the call fails with the missing-field error naming \<^verbatim>\<open>nick\<close>.
\<close>

theorem userhost_ison_nick_required:
  assumes "kwargs ''nick'' = None"
  shows "pack_command (CmdStr ''USERHOST'') kwargs = Inl (KeyError ''nick'')
       \<and> pack_command (CmdStr ''ISON'') kwargs = Inl (KeyError ''nick'')"
  using assms
  by (simp add: pack_command_dispatch [OF upper_literals(2)]
      pack_command_dispatch [OF upper_literals(3)]
      dispatch_def pack_def get_value_def then_do_def)

theorem userhost_ison_nick_required_witness:
  "pack_command (CmdStr ''USERHOST'') [''channel'' \<mapsto> PStr ''#a''] = Inl (KeyError ''nick'')
   \<and> pack_command (CmdStr ''ISON'') [''channel'' \<mapsto> PStr ''#a''] = Inl (KeyError ''nick'')"
  using userhost_ison_nick_required [of "[''channel'' \<mapsto> PStr ''#a'']"] by simp

text \<open>With no parameters neither command returns the command word and a space.\<close>

theorem userhost_ison_default_counterexample:
  "pack_command (CmdStr ''USERHOST'') Map.empty \<noteq> Inr ''USERHOST ''
   \<and> pack_command (CmdStr ''ISON'') Map.empty \<noteq> Inr ''ISON ''
   \<and> pack_command (CmdStr ''USERHOST'') Map.empty = Inl (KeyError ''nick'')
   \<and> pack_command (CmdStr ''ISON'') Map.empty = Inl (KeyError ''nick'')"
  by (simp add: pack_command_dispatch [OF upper_literals(2)]
      pack_command_dispatch [OF upper_literals(3)]
      dispatch_def pack_def get_value_def then_do_def)

section \<open>JOIN without a key\<close>

text \<open>
  C4. For every parameter set containing channel but not key,
  \<^verbatim>\<open>pack_command("JOIN", ...)\<close> returns \<^verbatim>\<open>JOIN\<close>, a space, the packed channel text and
  a trailing space: the empty default of key is substituted and nothing is trimmed.
\<close>

theorem join_without_key_trailing_space:
  assumes "kwargs ''channel'' = Some v" and "kwargs ''key'' = None"
  shows "\<exists>a. pack ''channel'' kwargs None '','' = Inr a
           \<and> pack_command (CmdStr ''JOIN'') kwargs = Inr (''JOIN '' @ a @ '' '')"
  using assms
  by (simp add: pack_command_dispatch [OF upper_literals(4)] dispatch_def pack_def
      get_value_def then_do_def)

theorem join_without_key_trailing_space_witness:
  "pack_command (CmdStr ''JOIN'') [''channel'' \<mapsto> PStr ''#a''] = Inr ''JOIN #a ''"
  using join_without_key_trailing_space [of "[''channel'' \<mapsto> PStr ''#a'']" "PStr ''#a''"]
  by (simp add: pack_def get_value_def)

section \<open>Strings pass through the List Packer\<close>

text \<open>
  C7. When the value that \<^verbatim>\<open>pack\<close> resolves for a field (from the parameter set or
  from the default) is a string, \<^verbatim>\<open>pack\<close> returns that string unchanged, whatever the
  separator: it is not split into characters and joined.
\<close>

theorem pack_string_unchanged:
  assumes "get_value field kwargs dflt = Inr (PStr s)"
  shows "pack field kwargs dflt sep = Inr s"
  using assms by (simp add: pack_def)

theorem pack_string_unchanged_witness:
  "pack ''channel'' [''channel'' \<mapsto> PStr ''#abc''] None '','' = Inr ''#abc''"
  using pack_string_unchanged
    [of "''channel''" "[''channel'' \<mapsto> PStr ''#abc'']" None "''#abc''" "'',''"]
  by (simp add: get_value_def)

section \<open>QUIT\<close>

text \<open>
  C9. \<^verbatim>\<open>pack_command("QUIT", {})\<close> returns exactly \<^verbatim>\<open>QUIT\<close>, and for every parameter
  set containing message, \<^verbatim>\<open>pack_command("QUIT", ...)\<close> returns \<^verbatim>\<open>QUIT :\<close> followed by
  the stringified message.
\<close>

theorem quit_shape:
  "pack_command (CmdStr ''QUIT'') Map.empty = Inr ''QUIT''
   \<and> (kwargs ''message'' = Some m \<longrightarrow>
        pack_command (CmdStr ''QUIT'') kwargs = Inr (''QUIT :'' @ py_str m))"
  by (simp add: pack_command_dispatch [OF upper_literals(5)] dispatch_def f_def
      get_value_def then_do_def)

theorem quit_shape_witness:
  "pack_command (CmdStr ''QUIT'') [''message'' \<mapsto> PStr ''bye''] = Inr ''QUIT :bye''"
  using quit_shape [of "[''message'' \<mapsto> PStr ''bye'']" "PStr ''bye''"] by simp

section \<open>LINKS\<close>

text \<open>
  C10. For \<^verbatim>\<open>pack_command("LINKS", ...)\<close>: with remote present and mask absent the call
  fails with the missing-field error for \<^verbatim>\<open>mask\<close>; with mask present and remote absent
  it returns \<^verbatim>\<open>LINKS <mask>\<close>; with neither it returns \<^verbatim>\<open>LINKS\<close>.
\<close>

theorem links_mask_required_with_remote:
  "(kwargs ''remote'' = Some r \<and> kwargs ''mask'' = None \<longrightarrow>
      pack_command (CmdStr ''LINKS'') kwargs = Inl (KeyError ''mask''))
   \<and> (kwargs ''remote'' = None \<and> kwargs ''mask'' = Some m \<longrightarrow>
      pack_command (CmdStr ''LINKS'') kwargs = Inr (''LINKS '' @ py_str m))
   \<and> (kwargs ''remote'' = None \<and> kwargs ''mask'' = None \<longrightarrow>
      pack_command (CmdStr ''LINKS'') kwargs = Inr ''LINKS'')"
  by (simp add: pack_command_dispatch [OF upper_literals(6)] dispatch_def f_def
      get_value_def then_do_def)

theorem links_mask_required_with_remote_witness:
  "pack_command (CmdStr ''LINKS'') [''remote'' \<mapsto> PStr ''*.edu''] = Inl (KeyError ''mask'')
   \<and> pack_command (CmdStr ''LINKS'') [''mask'' \<mapsto> PStr ''*.au''] = Inr ''LINKS *.au''
   \<and> pack_command (CmdStr ''LINKS'') Map.empty = Inr ''LINKS''"
  using links_mask_required_with_remote [of "[''remote'' \<mapsto> PStr ''*.edu'']" "PStr ''*.edu''" m]
    links_mask_required_with_remote [of "[''mask'' \<mapsto> PStr ''*.au'']" r "PStr ''*.au''"]
    links_mask_required_with_remote [of Map.empty r m]
  by simp

section \<open>Case-insensitivity of the command name\<close>

text \<open>
  C6. \<^verbatim>\<open>pack_command\<close> is case-insensitive in the command name: any two casings of the
  same name give identical results for every parameter set, the same line on success
  and the same error otherwise.
\<close>

theorem pack_command_case_insensitive:
  assumes "casings c1 c2"
  shows "pack_command (CmdStr c1) kwargs = pack_command (CmdStr c2) kwargs"
  using casings_upper [OF assms] casings_Nil_iff [OF assms]
  by (simp add: pack_command_def)

theorem pack_command_case_insensitive_witness:
  "casings ''join'' ''JOIN'' \<and> casings ''Join'' ''JOIN''
   \<and> pack_command (CmdStr ''join'') [''channel'' \<mapsto> PStr ''#a'']
       = pack_command (CmdStr ''JOIN'') [''channel'' \<mapsto> PStr ''#a'']
   \<and> pack_command (CmdStr ''Join'') [''channel'' \<mapsto> PStr ''#a'']
       = pack_command (CmdStr ''JOIN'') [''channel'' \<mapsto> PStr ''#a'']"
proof -
  have a: "casings ''join'' ''JOIN''" and b: "casings ''Join'' ''JOIN''"
    by (simp_all add: casings_def same_letter_def upper_char_def)
  show ?thesis
    using a b pack_command_case_insensitive [OF a] pack_command_case_insensitive [OF b]
    by simp
qed

section \<open>The shape of the output line\<close>

text \<open>
  What a successful call returns, by command: the bare command word (the commands
  without fields, and QUIT, AWAY and LINKS when given none of their optional fields), a
  line starting with \<^verbatim>\<open>MODE\<close> and a space (USERMODE and CHANNELMODE), or a line
  starting with the command word and a space.
\<close>

lemma dispatch_result:
  "dispatch C p = Inr s \<Longrightarrow>
     (C \<in> set no_argument_commands \<and> s = C)
     \<or> ((C = ''QUIT'' \<or> C = ''AWAY'') \<and> p ''message'' = None \<and> s = C)
     \<or> (C = ''LINKS'' \<and> p ''remote'' = None \<and> p ''mask'' = None \<and> s = C)
     \<or> ((C = ''USERMODE'' \<or> C = ''CHANNELMODE'') \<and> prefix ''MODE '' s)
     \<or> (C \<noteq> ''USERMODE'' \<and> C \<noteq> ''CHANNELMODE'' \<and> C \<notin> set no_argument_commands
          \<and> prefix (C @ '' '') s)"
  unfolding dispatch_def no_argument_commands_def
  by (auto simp add: then_do_Inr_iff Let_def split: if_splits)

text \<open>
  C3 (amended). For every command name and every parameter set accepted without error,
  with \<open>C\<close> the upper-cased name: if \<open>C\<close> is USERMODE or CHANNELMODE the returned line
  begins with \<^verbatim>\<open>MODE\<close> and a space; otherwise it begins with \<open>C\<close> and a space or equals
  the bare word \<open>C\<close>. The bare word is returned only by the commands without fields and
  by QUIT, AWAY and LINKS when none of their optional fields is given.
\<close>

theorem output_begins_with_command:
  assumes "pack_command (CmdStr c) kwargs = Inr s"
  shows "(if upper c = ''USERMODE'' \<or> upper c = ''CHANNELMODE'' then prefix ''MODE '' s
          else prefix (upper c @ '' '') s \<or> s = upper c)
       \<and> (s = upper c \<longrightarrow>
            upper c \<in> set no_argument_commands
            \<or> ((upper c = ''QUIT'' \<or> upper c = ''AWAY'') \<and> kwargs ''message'' = None)
            \<or> (upper c = ''LINKS'' \<and> kwargs ''remote'' = None \<and> kwargs ''mask'' = None))"
proof -
  have d: "dispatch (upper c) kwargs = Inr s"
    using assms by (rule pack_command_Inr_dispatch)
  have n: "\<not> prefix (upper c @ '' '') (upper c)"
    by (simp add: prefix_def)
  have m: "\<not> prefix ''MODE '' ''USERMODE''" "\<not> prefix ''MODE '' ''CHANNELMODE''"
    by simp_all
  have q: "''USERMODE'' \<notin> set no_argument_commands"
    "''CHANNELMODE'' \<notin> set no_argument_commands"
    by (simp_all add: no_argument_commands_def)
  show ?thesis
    using dispatch_result [OF d] n m q
    by (cases "upper c = ''USERMODE'' \<or> upper c = ''CHANNELMODE''") auto
qed

theorem output_begins_with_command_witness:
  "pack_command (CmdStr ''join'') [''channel'' \<mapsto> PStr ''#a''] = Inr ''JOIN #a ''
   \<and> prefix (upper ''join'' @ '' '') ''JOIN #a ''"
proof -
  have r: "pack_command (CmdStr ''join'') [''channel'' \<mapsto> PStr ''#a''] = Inr ''JOIN #a ''"
    by (simp add: pack_command_def upper_def upper_char_def dispatch_def pack_def
        get_value_def then_do_def)
  have u: "upper ''join'' = ''JOIN''"
    by (simp add: upper_def upper_char_def)
  show ?thesis
    using r output_begins_with_command [OF r] by (simp add: u)
qed

text \<open>
  USERMODE is a supported command whose line neither begins with \<^verbatim>\<open>USERMODE\<close> and a
  space nor equals \<^verbatim>\<open>USERMODE\<close>.
\<close>

theorem usermode_prefix_counterexample:
  "pack_command (CmdStr ''USERMODE'') [''nick'' \<mapsto> PStr ''WiZ'', ''modes'' \<mapsto> PStr ''-w'']
     = Inr ''MODE WiZ -w''
   \<and> \<not> prefix ''USERMODE '' ''MODE WiZ -w''
   \<and> ''MODE WiZ -w'' \<noteq> ''USERMODE''"
  by (simp add: pack_command_dispatch [OF upper_literals(8)] dispatch_def f_def
      get_value_def then_do_def)

section \<open>Missing required fields\<close>

lemma required_fields_cases:
  "g \<in> set (required_fields C) \<Longrightarrow>
     C \<in> set [''PASS'', ''NICK'', ''USER'', ''OPER'', ''USERMODE'', ''SERVICE'', ''SQUIT'',
       ''JOIN'', ''PART'', ''CHANNELMODE'', ''TOPIC'', ''INVITE'', ''KICK'', ''PRIVMSG'',
       ''NOTICE'', ''CONNECT'', ''SQUERY'', ''WHOIS'', ''WHOWAS'', ''KILL'', ''SUMMON'',
       ''WALLOPS'', ''USERHOST'', ''ISON'']"
  unfolding required_fields_def
  by (simp split: if_splits)

lemma dispatch_missing:
  "g \<in> set (required_fields C) \<Longrightarrow> kwargs g = None \<Longrightarrow>
     \<exists>h. find (\<lambda>h. kwargs h = None) (required_fields C) = Some h
           \<and> dispatch C kwargs = Inl (KeyError h)"
  apply (frule required_fields_cases)
  apply (simp only: list.set insert_iff empty_iff)
  apply (elim disjE FalseE)
  apply (auto simp add: required_fields_def dispatch_def f_def pack_def get_value_def
      then_do_def)
  done

text \<open>
  C8 (amended). When a required field of a command is absent from the parameter set,
  \<^verbatim>\<open>pack_command\<close> fails with the missing-field error (\<^verbatim>\<open>KeyError\<close>) naming the first
  absent required field in the order in which the rule reads them: the absent field
  itself whenever every required field read before it is present. In particular
  \<^verbatim>\<open>pack_command("PASS", {})\<close> fails naming \<^verbatim>\<open>password\<close>.
\<close>

theorem missing_required_field:
  assumes "g \<in> set (required_fields (upper c))" and "kwargs g = None"
  shows "\<exists>h. find (\<lambda>h. kwargs h = None) (required_fields (upper c)) = Some h
           \<and> pack_command (CmdStr c) kwargs = Inl (KeyError h)"
proof -
  have ne: "upper c \<noteq> []"
    using assms(1) by (auto simp add: required_fields_def)
  show ?thesis
    unfolding pack_command_upper [OF ne] using assms by (rule dispatch_missing)
qed

theorem missing_required_field_witness:
  "''password'' \<in> set (required_fields (upper ''PASS''))
   \<and> pack_command (CmdStr ''PASS'') Map.empty = Inl (KeyError ''password'')"
  using missing_required_field [of "''password''" "''PASS''" Map.empty]
  by (simp add: required_fields_def upper_literals)

text \<open>
  OPER requires user and password (with user present, the absence of password is
  reported), yet with both absent the error names \<^verbatim>\<open>user\<close>, not \<^verbatim>\<open>password\<close>.
\<close>

theorem oper_names_first_missing_counterexample:
  "pack_command (CmdStr ''OPER'') [''user'' \<mapsto> PStr ''AzureDiamond'']
     = Inl (KeyError ''password'')
   \<and> pack_command (CmdStr ''OPER'') Map.empty = Inl (KeyError ''user'')
   \<and> pack_command (CmdStr ''OPER'') Map.empty \<noteq> Inl (KeyError ''password'')"
  by (simp add: pack_command_dispatch [OF upper_literals(9)] dispatch_def f_def
      get_value_def then_do_def)

section \<open>One-element sequences\<close>

lemma pack_singleton:
  "is_scalar v \<Longrightarrow> get_value field kw1 d1 = Inr (PIter [v] r) \<Longrightarrow>
     get_value field' kw2 d2 = Inr v \<Longrightarrow> pack field kw1 d1 sep = pack field' kw2 d2 sep"
  by (cases v) (simp_all add: pack_def is_scalar_def)

lemma pack_upd_same:
  "is_scalar v \<Longrightarrow> pack g (kw(g \<mapsto> PIter [v] r)) d sep = pack g (kw(g \<mapsto> v)) d sep"
  by (rule pack_singleton [where v = v and r = r])
    (simp_all add: get_value_def split: option.splits)

lemma pack_upd_other: "h \<noteq> g \<Longrightarrow> pack h (kw(g \<mapsto> x)) d sep = pack h kw d sep"
  by (cases d) (simp_all add: pack_def get_value_def)

lemma f_upd_other: "h \<noteq> g \<Longrightarrow> f h (kw(g \<mapsto> x)) d = f h kw d"
  by (cases d) (simp_all add: f_def get_value_def)

lemma dispatch_singleton:
  "is_scalar v \<Longrightarrow> (C, g) \<in> set list_fields \<Longrightarrow>
     dispatch C (kw(g \<mapsto> PIter [v] r)) = dispatch C (kw(g \<mapsto> v))"
  unfolding list_fields_def
  apply (simp only: list.set insert_iff empty_iff prod.inject)
  apply (elim disjE conjE FalseE)
  apply (simp_all add: dispatch_def pack_upd_same pack_upd_other f_upd_other cong: if_cong)
  done

text \<open>
  C5. For every field name, parameter sets, defaults and separator: when \<^verbatim>\<open>pack\<close>
  resolves the one-element sequence \<open>[v]\<close> in one call and the scalar \<open>v\<close> in another, both
  calls return the same string. Consequently, for every list-joinable field of every
  command, giving the field as the one-element sequence \<open>[v]\<close> yields the same
  \<^verbatim>\<open>pack_command\<close> result as giving it as the scalar \<open>v\<close>.
\<close>

theorem one_element_sequence_packs_as_scalar:
  assumes "is_scalar v"
  shows "(get_value field kw1 d1 = Inr (PIter [v] r) \<and> get_value field kw2 d2 = Inr v \<longrightarrow>
            pack field kw1 d1 sep = pack field kw2 d2 sep)
       \<and> ((upper c, g) \<in> set list_fields \<longrightarrow>
            pack_command (CmdStr c) (kwargs(g \<mapsto> PIter [v] r))
              = pack_command (CmdStr c) (kwargs(g \<mapsto> v)))"
proof (intro conjI impI)
  assume "get_value field kw1 d1 = Inr (PIter [v] r) \<and> get_value field kw2 d2 = Inr v"
  then show "pack field kw1 d1 sep = pack field kw2 d2 sep"
    using assms pack_singleton by blast
next
  assume l: "(upper c, g) \<in> set list_fields"
  then have ne: "upper c \<noteq> []"
    by (auto simp add: list_fields_def)
  show "pack_command (CmdStr c) (kwargs(g \<mapsto> PIter [v] r))
          = pack_command (CmdStr c) (kwargs(g \<mapsto> v))"
    unfolding pack_command_upper [OF ne] using assms l by (rule dispatch_singleton)
qed

theorem one_element_sequence_packs_as_scalar_witness:
  "is_scalar (PStr ''#a'')
   \<and> pack ''channel'' [''channel'' \<mapsto> PIter [PStr ''#a''] ''x''] None '',''
       = pack ''channel'' [''channel'' \<mapsto> PStr ''#a''] None '',''
   \<and> pack_command (CmdStr ''JOIN'') [''channel'' \<mapsto> PIter [PStr ''#a''] ''x'']
       = pack_command (CmdStr ''JOIN'') [''channel'' \<mapsto> PStr ''#a'']"
proof -
  have s: "is_scalar (PStr ''#a'')"
    by (simp add: is_scalar_def)
  show ?thesis
    using s one_element_sequence_packs_as_scalar
      [OF s, of "''channel''" "[''channel'' \<mapsto> PIter [PStr ''#a''] ''x'']" None "''x''"
         "[''channel'' \<mapsto> PStr ''#a'']" None "'',''" "''JOIN''" "''channel''" Map.empty]
    by (simp add: get_value_def list_fields_def upper_literals)
qed

end
